theory Spec2Isabelle
  imports Complex_Main "HOL-Library.Log_Nat"
begin

section \<open>VisionCut: the export pipeline of \<open>src/App.js\<close>\<close>

text \<open>
  The development embeds the component \<open>App\<close> of \<open>src/App.js\<close>: its state, the
  handlers \<open>onImageLoad\<close>, \<open>handleAspectChange\<close> and \<open>handleExport\<close>, and the two
  style expressions of the live preview (the \<open>filter\<close> of the image element and the
  \<open>background\<close> of the vignette overlay).

  Numbers. A JavaScript Number is an IEEE 754 double. A finite double is modelled as the
  \<^typ>\<open>real\<close> it denotes. The coordinate mapping floors its results, which makes the
  rounding of every operation observable: there \<open>a * b\<close> and \<open>a / b\<close> are the exact
  product and quotient rounded to the nearest double, ties to even (\<open>jsMul\<close>, \<open>jsDiv\<close>).
  The arguments of the filter functions and the radius and alpha of the vignette are
  continuous quantities that are never floored or compared with one another; they are
  computed with exact arithmetic. The values \<open>Infinity\<close> and \<open>NaN\<close> and magnitudes beyond
  the largest double are outside the model. The one place of the source that can produce
  them from the sizes of an image is the division \<open>image.naturalWidth / image.width\<close> for
  an image displayed with width (or height) zero; theorems that speak about the scale
  factors therefore assume a displayed size that is positive. Pixel sizes of DOM elements
  (\<open>unsigned long\<close>) are natural numbers, \<open>Math.floor\<close> yields an integer.

  Strings. The CSS values that the source assembles with template literals are modelled
  by the values they denote: a filter expression is the list of its filter functions with
  their arguments, a colour is \<open>transparent\<close> or an \<open>rgba\<close> quadruple.
\<close>

subsection \<open>Data\<close>

datatype lengthUnit = Percent | Px

text \<open>The crop of \<open>react-image-crop\<close>: \<open>{unit, x, y, width, height}\<close>.\<close>

record cropRect =
  cropUnit :: lengthUnit
  cropX :: real
  cropY :: real
  cropWidth :: real
  cropHeight :: real

text \<open>The \<open>img\<close> element behind \<open>imgRef\<close>: natural (decoded) and displayed size.\<close>

record image =
  naturalWidth :: nat
  naturalHeight :: nat
  width :: nat
  height :: nat

record adjustments =
  brightness :: real
  contrast :: real
  saturation :: real
  temperature :: real
  vignette :: real

definition DEFAULT_ADJ :: adjustments where
  "DEFAULT_ADJ =
     \<lparr>brightness = 100, contrast = 100, saturation = 100, temperature = 0, vignette = 0\<rparr>"

text \<open>
  A filter expression
  \<open>brightness(b%) contrast(c%) saturate(s%) sepia(p%) hue-rotate(h deg)\<close> is the list
  of its functions, in order; the empty list is the value \<open>none\<close>.
\<close>

datatype filterFn =
    Brightness real
  | Contrast real
  | Saturate real
  | Sepia real
  | HueRotate real

type_synonym filterExpr = "filterFn list"

datatype color = Transparent | Rgba real real real real

text \<open>
  A \<open>CanvasGradient\<close> made by \<open>createRadialGradient(x0, y0, r0, x1, y1, r1)\<close>, with the
  colour stops added so far, each an offset in \<open>[0, 1]\<close> and a colour.
\<close>

record radialGradient =
  startX :: real
  startY :: real
  startR :: real
  endX :: real
  endY :: real
  endR :: real
  colorStops :: "(real \<times> color) list"

text \<open>
  The CSS image \<open>radial-gradient(circle, c1 p1%, c2 p2%)\<close> of the preview overlay: its
  colour stops, each a position in percent and a colour.
\<close>

type_synonym cssRadialGradient = "(real \<times> color) list"

record sourceRegion =
  sourceX :: real
  sourceY :: real
  sourceWidth :: real
  sourceHeight :: real

datatype fillStyle = Solid string | Gradient radialGradient

text \<open>
  What has been painted on a canvas: \<open>drawImage(image, sx, sy, sw, sh, 0, 0, dw, dh)\<close>
  under the filter then in effect, and \<open>fillRect(0, 0, w, h)\<close> with the fill style and the
  filter then in effect.
\<close>

datatype paint =
    DrawImage image sourceRegion int int filterExpr
  | FillRect int int fillStyle filterExpr

text \<open>
  The \<open>canvas\<close> element with the state of its 2D context. \<open>pixels\<close> lists what has been
  painted since the bitmap was last cleared, oldest first.
\<close>

record canvas =
  canvasWidth :: int
  canvasHeight :: int
  ctxFilter :: filterExpr
  ctxFillStyle :: fillStyle
  pixels :: "paint list"

datatype exn = Exn string

type_synonym blob = nat

text \<open>The effects of an export that leave the component.\<close>

datatype effect =
    ConsoleError string exn
  | ToBlob string real
  | CreateObjectURL blob
  | CreateLink
  | SetDownload nat
  | SetHref
  | LinkClick
  | RevokeObjectURL

datatype completion = Normal | Throw exn

text \<open>
  What the browser decides during one export: whether \<open>drawImage\<close> throws (and what),
  the blob that \<open>toBlob\<close> hands to its callback (\<open>None\<close> is \<open>null\<close>), and \<open>Date.now()\<close>.
\<close>

record browser =
  drawImageFault :: "exn option"
  encoded :: "blob option"
  now :: nat

type_synonym ref = nat

text \<open>
  The state of \<open>App\<close> that the handlers read and write. A React ref holds \<open>null\<close> or a
  DOM element; elements are objects, so the canvas elements live in a store \<open>elements\<close>
  and \<open>downloadCanvasRef\<close> holds an address.
\<close>

record app =
  crop :: "cropRect option"
  completedCrop :: "cropRect option"
  aspect :: real
  adj :: adjustments
  imgRef :: "image option"
  downloadCanvasRef :: "ref option"
  elements :: "ref \<rightharpoonup> canvas"

subsection \<open>Arithmetic on doubles\<close>

text \<open>
  Rounding a real to an integer, to the nearest and to the even one of two that are
  equally near.
\<close>

definition roundHalfEven :: "real \<Rightarrow> int" where
  "roundHalfEven y =
     (let f = \<lfloor>y\<rfloor>;
          d = y - of_int f
      in if d < 1 / 2 then f
         else if d > 1 / 2 then f + 1
         else if even f then f else f + 1)"

text \<open>
  The binary exponent of a double near \<open>x \<noteq> 0\<close>: the \<open>e\<close> with
  \<open>2^e \<le> |x| < 2^(e+1)\<close>, but at least \<open>-1022\<close>, the exponent of the subnormal numbers.
  It is computed from the number of bits of an integer.
\<close>

definition binExponent :: "real \<Rightarrow> int" where
  "binExponent x =
     max (- 1022)
       (if \<bar>x\<bar> \<ge> 1 then bitlen \<lfloor>\<bar>x\<bar>\<rfloor> - 1 else - bitlen (\<lceil>1 / \<bar>x\<bar>\<rceil> - 1))"

text \<open>
  The double nearest to a real: a significand of 53 bits, so the doubles with exponent
  \<open>e\<close> are the multiples of \<open>2^(e - 52)\<close>.
\<close>

definition fl :: "real \<Rightarrow> real" where
  "fl x =
     (if x = 0 then 0
      else of_int (roundHalfEven (x / 2 powi (binExponent x - 52)))
           * 2 powi (binExponent x - 52))"

definition jsMul :: "real \<Rightarrow> real \<Rightarrow> real" where
  "jsMul a b = fl (a * b)"

definition jsDiv :: "real \<Rightarrow> real \<Rightarrow> real" where
  "jsDiv a b = fl (a / b)"

subsection \<open>Coordinate mapping (\<open>handleExport\<close>, lines 99 to 108)\<close>

definition resolveRegion :: "image \<Rightarrow> cropRect option \<Rightarrow> sourceRegion" where
  "resolveRegion img cc =
     (let scaleX = jsDiv (real (naturalWidth img)) (real (width img));
          scaleY = jsDiv (real (naturalHeight img)) (real (height img));
          isCropValid = (case cc of None \<Rightarrow> False
                         | Some c \<Rightarrow> cropWidth c > 0 \<and> cropHeight c > 0)
      in \<lparr>sourceX = (if isCropValid then jsMul (cropX (the cc)) scaleX else 0),
          sourceY = (if isCropValid then jsMul (cropY (the cc)) scaleY else 0),
          sourceWidth = (if isCropValid then jsMul (cropWidth (the cc)) scaleX
                         else real (naturalWidth img)),
          sourceHeight = (if isCropValid then jsMul (cropHeight (the cc)) scaleY
                          else real (naturalHeight img))\<rparr>)"

subsection \<open>Filter expressions\<close>

text \<open>Lines 114 to 118: the filter that \<open>handleExport\<close> assigns to \<open>ctx.filter\<close>.\<close>

definition sepia :: "adjustments \<Rightarrow> real" where
  "sepia a = (if temperature a > 0 then temperature a else 0)"

definition hue :: "adjustments \<Rightarrow> real" where
  "hue a = (if temperature a < 0 then temperature a * 1.5 else 0)"

definition exportFilter :: "adjustments \<Rightarrow> filterExpr" where
  "exportFilter a =
     [Brightness (brightness a), Contrast (contrast a), Saturate (saturation a),
      Sepia (sepia a), HueRotate (hue a)]"

text \<open>Line 226: the \<open>style.filter\<close> of the preview image.\<close>

definition previewFilter :: "adjustments \<Rightarrow> filterExpr" where
  "previewFilter a =
     [Brightness (brightness a), Contrast (contrast a), Saturate (saturation a),
      Sepia (if temperature a > 0 then temperature a else 0),
      HueRotate (if temperature a < 0 then temperature a * 1.5 else 0)]"

subsection \<open>Vignette\<close>

text \<open>Lines 217 to 219: the \<open>background\<close> of the overlay element, rendered with every
  preview.\<close>

definition previewVignette :: "adjustments \<Rightarrow> cssRadialGradient" where
  "previewVignette a =
     [(max 0 (60 - vignette a / 2), Transparent),
      (100, Rgba 0 0 0 (min (vignette a / 100) 0.85))]"

text \<open>The opacity of a colour; \<open>transparent\<close> is \<open>rgba(0,0,0,0)\<close>.\<close>

fun alpha :: "color \<Rightarrow> real" where
  "alpha Transparent = 0"
| "alpha (Rgba r g b a) = a"

text \<open>
  The Canvas API: \<open>createRadialGradient\<close> throws an \<open>IndexSizeError\<close> for a negative
  radius; \<open>addColorStop\<close> appends a stop (its offsets here are the constants 0 and 1, so
  its own range check cannot fail).
\<close>

definition createRadialGradient ::
  "real \<Rightarrow> real \<Rightarrow> real \<Rightarrow> real \<Rightarrow> real \<Rightarrow> real \<Rightarrow> exn + radialGradient" where
  "createRadialGradient a0 b0 c0 a1 b1 c1 =
     (if c0 < 0 \<or> c1 < 0 then Inl (Exn ''IndexSizeError'')
      else Inr \<lparr>startX = a0, startY = b0, startR = c0,
                endX = a1, endY = b1, endR = c1, colorStops = []\<rparr>)"

definition addColorStop :: "real \<Rightarrow> color \<Rightarrow> radialGradient \<Rightarrow> radialGradient" where
  "addColorStop off col g = g\<lparr>colorStops := colorStops g @ [(off, col)]\<rparr>"

text \<open>Lines 131 to 137: the gradient of the baked vignette for a canvas of the given
  size.\<close>

definition vignetteGradient :: "adjustments \<Rightarrow> int \<Rightarrow> int \<Rightarrow> exn + radialGradient" where
  "vignetteGradient a w h =
     (let centerX = real_of_int w / 2;
          centerY = real_of_int h / 2;
          radius = sqrt (centerX ^ 2 + centerY ^ 2) * (1.2 - vignette a / 100)
      in case createRadialGradient centerX centerY 0 centerX centerY (max 1 radius) of
           Inl e \<Rightarrow> Inl e
         | Inr grad \<Rightarrow>
             Inr (addColorStop 1 (Rgba 0 0 0 (min (vignette a / 100) 0.85))
                   (addColorStop 0 Transparent grad)))"

subsection \<open>The canvas\<close>

text \<open>
  Assigning \<open>canvas.width\<close> or \<open>canvas.height\<close> clears the bitmap and resets the
  context to its defaults (filter \<open>none\<close>, fill style black).
\<close>

definition setWidth :: "int \<Rightarrow> canvas \<Rightarrow> canvas" where
  "setWidth n c =
     \<lparr>canvasWidth = n, canvasHeight = canvasHeight c, ctxFilter = [],
      ctxFillStyle = Solid ''#000000'', pixels = []\<rparr>"

definition setHeight :: "int \<Rightarrow> canvas \<Rightarrow> canvas" where
  "setHeight n c =
     \<lparr>canvasWidth = canvasWidth c, canvasHeight = n, ctxFilter = [],
      ctxFillStyle = Solid ''#000000'', pixels = []\<rparr>"

definition drawImage :: "browser \<Rightarrow> image \<Rightarrow> sourceRegion \<Rightarrow> canvas \<Rightarrow> exn + canvas" where
  "drawImage b img region c =
     (case drawImageFault b of
        Some e \<Rightarrow> Inl e
      | None \<Rightarrow>
          Inr (c\<lparr>pixels := pixels c @
                 [DrawImage img region (canvasWidth c) (canvasHeight c) (ctxFilter c)]\<rparr>))"

definition fillRect :: "canvas \<Rightarrow> canvas" where
  "fillRect c =
     c\<lparr>pixels := pixels c @
        [FillRect (canvasWidth c) (canvasHeight c) (ctxFillStyle c) (ctxFilter c)]\<rparr>"

subsection \<open>\<open>handleExport\<close>\<close>

text \<open>Lines 144 to 152: the callback given to \<open>toBlob\<close>.\<close>

definition toBlobCallback :: "nat \<Rightarrow> blob option \<Rightarrow> effect list" where
  "toBlobCallback t bl =
     (case bl of
        None \<Rightarrow> []
      | Some u \<Rightarrow> [CreateObjectURL u, CreateLink, SetDownload t, SetHref, LinkClick,
                   RevokeObjectURL])"

text \<open>
  Lines 121 to 152, the body of the \<open>try\<close>: the exception thrown, if any, or the effects
  of encoding; with the canvas as the body leaves it. The callback of \<open>toBlob\<close> runs
  after the handler has returned; its effects are appended to those of the call.
\<close>

definition tryBody ::
  "browser \<Rightarrow> adjustments \<Rightarrow> image \<Rightarrow> sourceRegion \<Rightarrow> canvas \<Rightarrow> (exn + effect list) \<times> canvas"
where
  "tryBody b a img region c =
     (case drawImage b img region c of
        Inl e \<Rightarrow> (Inl e, c)
      | Inr c1 \<Rightarrow>
          (let step5 =
             (if vignette a > 0 then
                (let c2 = c1\<lparr>ctxFilter := []\<rparr> in
                 case vignetteGradient a (canvasWidth c2) (canvasHeight c2) of
                   Inl e \<Rightarrow> (Some e, c2)
                 | Inr grad \<Rightarrow> (None, fillRect (c2\<lparr>ctxFillStyle := Gradient grad\<rparr>)))
              else (None, c1))
           in case step5 of
                (Some e, c3) \<Rightarrow> (Inl e, c3)
              | (None, c3) \<Rightarrow>
                  (Inr (ToBlob ''image/png'' 1 # toBlobCallback (now b) (encoded b)), c3)))"

text \<open>
  Lines 90 to 157. The result is how the call completes, the effects it has, and the
  state it leaves. A ref that is not \<open>null\<close> always denotes an element; the branch for
  an address without element is there only because the store is a partial map, and it
  behaves like \<open>null\<close>.
\<close>

definition handleExport :: "browser \<Rightarrow> app \<Rightarrow> completion \<times> effect list \<times> app" where
  "handleExport b s =
     (case imgRef s of
        None \<Rightarrow> (Normal, [], s)
      | Some img \<Rightarrow>
         (case downloadCanvasRef s of
            None \<Rightarrow> (Normal, [], s)
          | Some r \<Rightarrow>
             (case elements s r of
                None \<Rightarrow> (Normal, [], s)
              | Some c \<Rightarrow>
                 (let region = resolveRegion img (completedCrop s);
                      c1 = setWidth \<lfloor>sourceWidth region\<rfloor> c;
                      c2 = setHeight \<lfloor>sourceHeight region\<rfloor> c1;
                      c3 = c2\<lparr>ctxFilter := exportFilter (adj s)\<rparr>
                  in case tryBody b (adj s) img region c3 of
                       (Inl err, c4) \<Rightarrow>
                         (Normal, [ConsoleError ''Export failed:'' err],
                          s\<lparr>elements := (elements s)(r \<mapsto> c4)\<rparr>)
                     | (Inr effs, c4) \<Rightarrow>
                         (Normal, effs, s\<lparr>elements := (elements s)(r \<mapsto> c4)\<rparr>)))))"

text \<open>The canvas that \<open>downloadCanvasRef.current\<close> denotes in a state, if any.\<close>

definition exportTarget :: "app \<Rightarrow> canvas option" where
  "exportTarget s = Option.bind (downloadCanvasRef s) (elements s)"

subsection \<open>\<open>onImageLoad\<close> and \<open>handleAspectChange\<close>\<close>

text \<open>
  Both handlers call \<open>makeAspectCrop\<close> and \<open>centerCrop\<close> of the library
  \<open>react-image-crop\<close>, which is not part of this repository: the two functions are
  parameters of the model. \<open>makeAspectCrop\<close> takes a crop of which only the unit has to
  be given.
\<close>

record partialCrop =
  pUnit :: lengthUnit
  pX :: "real option"
  pY :: "real option"
  pWidth :: "real option"
  pHeight :: "real option"

record cropLib =
  makeAspectCrop :: "partialCrop \<Rightarrow> real \<Rightarrow> real \<Rightarrow> real \<Rightarrow> cropRect"
  centerCrop :: "cropRect \<Rightarrow> real \<Rightarrow> real \<Rightarrow> cropRect"

text \<open>Lines 43 to 52; \<open>e\<close> is \<open>e.currentTarget\<close>, the image element that has loaded.\<close>

definition onImageLoad :: "cropLib \<Rightarrow> image \<Rightarrow> app \<Rightarrow> app" where
  "onImageLoad lib e s =
     (let initialCrop =
            centerCrop lib
              (makeAspectCrop lib
                 \<lparr>pUnit = Percent, pX = None, pY = None, pWidth = Some 100, pHeight = None\<rparr>
                 (aspect s) (real (width e)) (real (height e)))
              (real (width e)) (real (height e))
      in s\<lparr>crop := Some initialCrop, completedCrop := Some initialCrop\<rparr>)"

text \<open>Lines 76 to 88.\<close>

definition handleAspectChange :: "cropLib \<Rightarrow> real \<Rightarrow> app \<Rightarrow> app" where
  "handleAspectChange lib newAspect s =
     (let s1 = s\<lparr>aspect := newAspect\<rparr>
      in case imgRef s of
           None \<Rightarrow> s1
         | Some img \<Rightarrow>
             (let newCrop =
                    centerCrop lib
                      (makeAspectCrop lib
                         \<lparr>pUnit = Percent, pX = None, pY = None, pWidth = Some 90,
                          pHeight = None\<rparr>
                         newAspect (real (width img)) (real (height img)))
                      (real (width img)) (real (height img))
              in s1\<lparr>crop := Some newCrop, completedCrop := Some newCrop\<rparr>))"

text \<open>The library keeps the unit of the crop it is given.\<close>

definition keepsUnit :: "cropLib \<Rightarrow> bool" where
  "keepsUnit lib \<longleftrightarrow>
     (\<forall>p a w h. cropUnit (makeAspectCrop lib p a w h) = pUnit p) \<and>
     (\<forall>c w h. cropUnit (centerCrop lib c w h) = cropUnit c)"

subsection \<open>Concrete inputs\<close>

text \<open>An image of 4000 by 3000 pixels shown at 800 by 600, and a crop in pixels.\<close>

definition img0 :: image where
  "img0 = \<lparr>naturalWidth = 4000, naturalHeight = 3000, width = 800, height = 600\<rparr>"

definition crop0 :: cropRect where
  "crop0 = \<lparr>cropUnit = Px, cropX = 100, cropY = 100, cropWidth = 200, cropHeight = 150\<rparr>"

text \<open>A canvas as the document creates it: 300 by 150, nothing painted.\<close>

definition canvas0 :: canvas where
  "canvas0 = \<lparr>canvasWidth = 300, canvasHeight = 150, ctxFilter = [],
              ctxFillStyle = Solid ''#000000'', pixels = []\<rparr>"

definition app0 :: app where
  "app0 = \<lparr>crop = Some crop0, completedCrop = Some crop0, aspect = 16 / 9,
           adj = DEFAULT_ADJ, imgRef = Some img0, downloadCanvasRef = Some 0,
           elements = [0 \<mapsto> canvas0]\<rparr>"

text \<open>
  An image of 4032 by 3024 pixels shown at 720 by 540, and a crop of 45 by 45 pixels:
  the scale factor 5.6 is not a double.
\<close>

definition img1 :: image where
  "img1 = \<lparr>naturalWidth = 4032, naturalHeight = 3024, width = 720, height = 540\<rparr>"

definition crop1 :: cropRect where
  "crop1 = \<lparr>cropUnit = Px, cropX = 0, cropY = 0, cropWidth = 45, cropHeight = 45\<rparr>"

definition appR :: app where
  "appR = \<lparr>crop = Some crop1, completedCrop = Some crop1, aspect = 1,
           adj = DEFAULT_ADJ, imgRef = Some img1, downloadCanvasRef = Some 0,
           elements = [0 \<mapsto> canvas0]\<rparr>"

definition browser0 :: browser where
  "browser0 = \<lparr>drawImageFault = None, encoded = Some 7, now = 1700000000000\<rparr>"


text \<open>The same export with the vignette slider at 150.\<close>

definition app150 :: app where
  "app150 = app0\<lparr>adj := DEFAULT_ADJ\<lparr>vignette := 150\<rparr>\<rparr>"

text \<open>A browser in which \<open>drawImage\<close> throws, and one in which \<open>toBlob\<close> yields \<open>null\<close>.\<close>

definition browserFault :: browser where
  "browserFault = browser0\<lparr>drawImageFault := Some (Exn ''InvalidStateError'')\<rparr>"

definition browserNull :: browser where
  "browserNull = browser0\<lparr>encoded := None\<rparr>"


text \<open>Two exports in a row: the first with the pixel crop, the second without a crop.\<close>

definition app1 :: app where
  "app1 = snd (snd (handleExport browser0 app0))"

definition app2 :: app where
  "app2 = snd (snd (handleExport browser0 (app1\<lparr>completedCrop := None\<rparr>)))"

text \<open>
  An implementation of the two library functions for the examples, after
  \<open>react-image-crop\<close>: the crop is taken to pixels of the container, fitted to the aspect
  ratio and to the container (respectively centred in it), and returned in the unit in
  which it was given.
\<close>

definition toPixels :: "lengthUnit \<Rightarrow> real \<Rightarrow> real \<Rightarrow> real" where
  "toPixels u full v = (case u of Px \<Rightarrow> v | Percent \<Rightarrow> v * full / 100)"

definition fromPixels :: "lengthUnit \<Rightarrow> real \<Rightarrow> real \<Rightarrow> real" where
  "fromPixels u full v = (case u of Px \<Rightarrow> v | Percent \<Rightarrow> v / full * 100)"

definition ricMakeAspectCrop :: "partialCrop \<Rightarrow> real \<Rightarrow> real \<Rightarrow> real \<Rightarrow> cropRect" where
  "ricMakeAspectCrop p a cw ch =
     (let given = (\<lambda>f. f p \<noteq> None \<and> f p \<noteq> Some 0);
          px = (\<lambda>f full. case f p of None \<Rightarrow> 0 | Some v \<Rightarrow> toPixels (pUnit p) full v);
          x0 = px pX cw;
          y0 = px pY ch;
          h1 = (if given pWidth then px pWidth cw / a else px pHeight ch);
          w1 = (if given pHeight then h1 * a else px pWidth cw);
          h2 = (if y0 + h1 > ch then ch - y0 else h1);
          w2 = (if y0 + h1 > ch then h2 * a else w1);
          w3 = (if x0 + w2 > cw then cw - x0 else w2);
          h3 = (if x0 + w2 > cw then w3 / a else h2)
      in \<lparr>cropUnit = pUnit p,
          cropX = fromPixels (pUnit p) cw x0, cropY = fromPixels (pUnit p) ch y0,
          cropWidth = fromPixels (pUnit p) cw w3,
          cropHeight = fromPixels (pUnit p) ch h3\<rparr>)"

definition ricCenterCrop :: "cropRect \<Rightarrow> real \<Rightarrow> real \<Rightarrow> cropRect" where
  "ricCenterCrop c cw ch =
     (let w = toPixels (cropUnit c) cw (cropWidth c);
          h = toPixels (cropUnit c) ch (cropHeight c)
      in \<lparr>cropUnit = cropUnit c,
          cropX = fromPixels (cropUnit c) cw ((cw - w) / 2),
          cropY = fromPixels (cropUnit c) ch ((ch - h) / 2),
          cropWidth = fromPixels (cropUnit c) cw w,
          cropHeight = fromPixels (cropUnit c) ch h\<rparr>)"

definition reactImageCrop :: cropLib where
  "reactImageCrop = \<lparr>makeAspectCrop = ricMakeAspectCrop, centerCrop = ricCenterCrop\<rparr>"

text \<open>The crop that loading \<open>img0\<close> installs at the aspect ratio 16:9, in percent.\<close>

definition cropPct :: cropRect where
  "cropPct = \<lparr>cropUnit = Percent, cropX = 0, cropY = 25 / 2, cropWidth = 100,
              cropHeight = 75\<rparr>"


section \<open>Properties\<close>

subsection \<open>Auxiliary facts\<close>

text \<open>Evaluating arithmetic on doubles at concrete numbers.\<close>

lemmas double_eval =
  fl_def binExponent_def roundHalfEven_def jsMul_def jsDiv_def compute_bitlen Let_def

text \<open>
  Three familiar doubles: \<open>0.1\<close> is \<open>0x1.999999999999Ap-4\<close>, \<open>0.1 + 0.2\<close> is
  \<open>0.30000000000000004\<close>, and \<open>4032 / 720\<close> is a little less than 5.6.
\<close>

lemma fl_tenth: "fl (1 / 10) = 3602879701896397 / 2 ^ 55"
  by (simp add: double_eval)

lemma fl_tenth_plus_fifth: "fl (fl (1 / 10) + fl (2 / 10)) = 1351079888211149 / 2 ^ 52"
  by (simp add: double_eval)

lemma jsDiv_4032_720: "jsDiv 4032 720 = 3152519739159347 / 2 ^ 49"
  by (simp add: double_eval)

lemma region0: "resolveRegion img0 (Some crop0) =
    \<lparr>sourceX = 500, sourceY = 500, sourceWidth = 1000, sourceHeight = 750\<rparr>"
  by (simp add: resolveRegion_def img0_def crop0_def double_eval)

lemma vignetteGradient_Inr:
  "vignetteGradient a w h =
     Inr \<lparr>startX = real_of_int w / 2, startY = real_of_int h / 2, startR = 0,
          endX = real_of_int w / 2, endY = real_of_int h / 2,
          endR = max 1 (sqrt ((real_of_int w / 2) ^ 2 + (real_of_int h / 2) ^ 2)
                        * (1.2 - vignette a / 100)),
          colorStops = [(0, Transparent),
                        (1, Rgba 0 0 0 (min (vignette a / 100) 0.85))]\<rparr>"
  by (simp add: vignetteGradient_def createRadialGradient_def addColorStop_def Let_def)

lemma tryBody_canvas_size:
  "canvasWidth (snd (tryBody b a img region c)) = canvasWidth c \<and>
   canvasHeight (snd (tryBody b a img region c)) = canvasHeight c"
  by (simp add: tryBody_def drawImage_def fillRect_def vignetteGradient_Inr Let_def
      split: option.splits)

lemma handleExport_target_size:
  assumes "imgRef s = Some img" and "downloadCanvasRef s = Some r"
    and "elements s r = Some c"
  shows "\<exists>c'. exportTarget (snd (snd (handleExport b s))) = Some c' \<and>
           canvasWidth c' = \<lfloor>sourceWidth (resolveRegion img (completedCrop s))\<rfloor> \<and>
           canvasHeight c' = \<lfloor>sourceHeight (resolveRegion img (completedCrop s))\<rfloor>"
proof -
  let ?region = "resolveRegion img (completedCrop s)"
  let ?c3 = "(setHeight \<lfloor>sourceHeight ?region\<rfloor> (setWidth \<lfloor>sourceWidth ?region\<rfloor> c))
               \<lparr>ctxFilter := exportFilter (adj s)\<rparr>"
  obtain res c4 where t: "tryBody b (adj s) img ?region ?c3 = (res, c4)"
    by (cases "tryBody b (adj s) img ?region ?c3")
  have sz: "canvasWidth c4 = canvasWidth ?c3 \<and> canvasHeight c4 = canvasHeight ?c3"
    using tryBody_canvas_size [of b "adj s" img ?region ?c3] t by simp
  have "exportTarget (snd (snd (handleExport b s))) = Some c4"
    using assms t by (cases res) (simp_all add: handleExport_def exportTarget_def Let_def)
  moreover have "canvasWidth c4 = \<lfloor>sourceWidth ?region\<rfloor>"
    using sz by (simp add: setHeight_def setWidth_def)
  moreover have "canvasHeight c4 = \<lfloor>sourceHeight ?region\<rfloor>"
    using sz by (simp add: setHeight_def setWidth_def)
  ultimately show ?thesis by blast
qed

lemma tryBody_result:
  "fst (tryBody b a img region c) =
     (case drawImageFault b of
        Some e \<Rightarrow> Inl e
      | None \<Rightarrow> Inr (ToBlob ''image/png'' 1 # toBlobCallback (now b) (encoded b)))"
  by (simp add: tryBody_def drawImage_def vignetteGradient_Inr Let_def split: option.splits)

lemma tryBody_pixels:
  "drawImageFault b = None \<Longrightarrow>
   pixels (snd (tryBody b a img region c)) =
     pixels c @ DrawImage img region (canvasWidth c) (canvasHeight c) (ctxFilter c) #
     (if vignette a > 0
      then [FillRect (canvasWidth c) (canvasHeight c)
              (Gradient (projr (vignetteGradient a (canvasWidth c) (canvasHeight c)))) []]
      else [])"
  by (simp add: tryBody_def drawImage_def fillRect_def vignetteGradient_Inr Let_def)

lemma tryBody_fault:
  "drawImageFault b = Some e \<Longrightarrow> tryBody b a img region c = (Inl e, c)"
  by (simp add: tryBody_def drawImage_def)

lemma handleExport_unfold:
  assumes "imgRef s = Some img" and "downloadCanvasRef s = Some r"
    and "elements s r = Some c"
  shows "handleExport b s =
     (let region = resolveRegion img (completedCrop s);
          c3 = \<lparr>canvasWidth = \<lfloor>sourceWidth region\<rfloor>, canvasHeight = \<lfloor>sourceHeight region\<rfloor>,
                ctxFilter = exportFilter (adj s), ctxFillStyle = Solid ''#000000'',
                pixels = []\<rparr>;
          t = tryBody b (adj s) img region c3
      in (Normal,
          (case fst t of Inl err \<Rightarrow> [ConsoleError ''Export failed:'' err] | Inr effs \<Rightarrow> effs),
          s\<lparr>elements := (elements s)(r \<mapsto> snd t)\<rparr>))"
  using assms
  by (simp add: handleExport_def setWidth_def setHeight_def Let_def
      split: prod.splits sum.splits)

lemma handleExport_effects:
  assumes "imgRef s = Some img" and "downloadCanvasRef s = Some r"
    and "elements s r = Some c"
  shows "fst (snd (handleExport b s)) =
     (case drawImageFault b of
        Some e \<Rightarrow> [ConsoleError ''Export failed:'' e]
      | None \<Rightarrow> ToBlob ''image/png'' 1 # toBlobCallback (now b) (encoded b))"
  by (simp add: handleExport_unfold [OF assms] tryBody_result Let_def split: option.splits)

lemma handleExport_completes: "fst (handleExport b s) = Normal"
  by (simp add: handleExport_def Let_def split: option.splits prod.splits sum.splits)

lemma handleExport_pixels:
  assumes "imgRef s = Some img" and "downloadCanvasRef s = Some r"
    and "elements s r = Some c" and "drawImageFault b = None"
  shows "\<exists>c'. exportTarget (snd (snd (handleExport b s))) = Some c' \<and>
     pixels c' =
       DrawImage img (resolveRegion img (completedCrop s)) (canvasWidth c') (canvasHeight c')
         (exportFilter (adj s)) #
       (if vignette (adj s) > 0
        then [FillRect (canvasWidth c') (canvasHeight c')
                (Gradient (projr (vignetteGradient (adj s) (canvasWidth c') (canvasHeight c'))))
                []]
        else [])"
  using assms(1,2,4)
  by (simp add: handleExport_unfold [OF assms(1-3)] exportTarget_def Let_def
      tryBody_pixels tryBody_canvas_size)

subsection \<open>Coordinate mapping\<close>

text \<open>
  C1. For a committed crop with positive width and height, and an image displayed with
  positive size, the source region is the crop multiplied field by field with
  \<open>scaleX = naturalWidth / width\<close> and \<open>scaleY = naturalHeight / height\<close>, each
  operation being the operation on doubles, and the canvas that the export draws into has
  the floor of the region's width and height as its dimensions.
\<close>

theorem C1_region_scaled_and_floored:
  assumes "imgRef s = Some img" and "downloadCanvasRef s = Some r"
    and "elements s r = Some c"
    and "completedCrop s = Some cr" and "0 < cropWidth cr" and "0 < cropHeight cr"
    and "0 < width img" and "0 < height img"
  shows "resolveRegion img (completedCrop s) =
           \<lparr>sourceX = jsMul (cropX cr) (jsDiv (real (naturalWidth img)) (real (width img))),
            sourceY = jsMul (cropY cr) (jsDiv (real (naturalHeight img)) (real (height img))),
            sourceWidth =
              jsMul (cropWidth cr) (jsDiv (real (naturalWidth img)) (real (width img))),
            sourceHeight =
              jsMul (cropHeight cr)
                (jsDiv (real (naturalHeight img)) (real (height img)))\<rparr> \<and>
         (\<exists>c'. exportTarget (snd (snd (handleExport b s))) = Some c' \<and>
            canvasWidth c' =
              \<lfloor>jsMul (cropWidth cr) (jsDiv (real (naturalWidth img)) (real (width img)))\<rfloor> \<and>
            canvasHeight c' =
              \<lfloor>jsMul (cropHeight cr)
                 (jsDiv (real (naturalHeight img)) (real (height img)))\<rfloor>)"
proof -
  have reg: "resolveRegion img (completedCrop s) =
           \<lparr>sourceX = jsMul (cropX cr) (jsDiv (real (naturalWidth img)) (real (width img))),
            sourceY = jsMul (cropY cr) (jsDiv (real (naturalHeight img)) (real (height img))),
            sourceWidth =
              jsMul (cropWidth cr) (jsDiv (real (naturalWidth img)) (real (width img))),
            sourceHeight =
              jsMul (cropHeight cr)
                (jsDiv (real (naturalHeight img)) (real (height img)))\<rparr>"
    using assms(4-6) by (simp add: resolveRegion_def Let_def)
  from handleExport_target_size [OF assms(1-3), of b] reg
  show ?thesis by simp
qed

text \<open>
  The example of the specification, where every operation is exact; and the image of
  4032 by 3024 pixels shown at 720 by 540 with a crop of 45 by 45, where the product
  of 45 and the scale factor is the double just below 252 and the canvas gets 251 by 251.
\<close>

theorem C1_witness:
  "imgRef app0 = Some img0 \<and> downloadCanvasRef app0 = Some 0 \<and>
   elements app0 0 = Some canvas0 \<and> completedCrop app0 = Some crop0 \<and>
   0 < cropWidth crop0 \<and> 0 < cropHeight crop0 \<and> 0 < width img0 \<and> 0 < height img0 \<and>
   resolveRegion img0 (completedCrop app0) =
     \<lparr>sourceX = 500, sourceY = 500, sourceWidth = 1000, sourceHeight = 750\<rparr> \<and>
   (\<exists>c'. exportTarget (snd (snd (handleExport browser0 app0))) = Some c' \<and>
      canvasWidth c' = 1000 \<and> canvasHeight c' = 750) \<and>
   imgRef appR = Some img1 \<and> completedCrop appR = Some crop1 \<and>
   resolveRegion img1 (completedCrop appR) =
     \<lparr>sourceX = 0, sourceY = 0, sourceWidth = 8866461766385663 / 2 ^ 45,
      sourceHeight = 8866461766385663 / 2 ^ 45\<rparr> \<and>
   (\<exists>c'. exportTarget (snd (snd (handleExport browser0 appR))) = Some c' \<and>
      canvasWidth c' = 251 \<and> canvasHeight c' = 251)"
proof -
  have h: "imgRef app0 = Some img0" "downloadCanvasRef app0 = Some 0"
    "elements app0 0 = Some canvas0" "completedCrop app0 = Some crop0"
    "0 < cropWidth crop0" "0 < cropHeight crop0" "0 < width img0" "0 < height img0"
    by (simp_all add: app0_def crop0_def img0_def)
  have k: "imgRef appR = Some img1" "downloadCanvasRef appR = Some 0"
    "elements appR 0 = Some canvas0" "completedCrop appR = Some crop1"
    "0 < cropWidth crop1" "0 < cropHeight crop1" "0 < width img1" "0 < height img1"
    by (simp_all add: appR_def crop1_def img1_def)
  have e0: "jsDiv 4000 800 = 5" "jsDiv 3000 600 = 5" "jsMul 100 5 = 500"
    "jsMul 200 5 = 1000" "jsMul 150 5 = 750"
    by (simp_all add: double_eval)
  have e1: "jsMul 0 (jsDiv 4032 720) = 0" "jsMul 0 (jsDiv 3024 540) = 0"
    "jsMul 45 (jsDiv 4032 720) = 8866461766385663 / 2 ^ 45"
    "jsMul 45 (jsDiv 3024 540) = 8866461766385663 / 2 ^ 45"
    by (simp_all add: double_eval)
  have a: "resolveRegion img0 (completedCrop app0) =
     \<lparr>sourceX = 500, sourceY = 500, sourceWidth = 1000, sourceHeight = 750\<rparr> \<and>
   (\<exists>c'. exportTarget (snd (snd (handleExport browser0 app0))) = Some c' \<and>
      canvasWidth c' = 1000 \<and> canvasHeight c' = 750)"
    using C1_region_scaled_and_floored [OF h, of browser0]
    by (simp add: img0_def crop0_def e0)
  have b: "resolveRegion img1 (completedCrop appR) =
     \<lparr>sourceX = 0, sourceY = 0, sourceWidth = 8866461766385663 / 2 ^ 45,
      sourceHeight = 8866461766385663 / 2 ^ 45\<rparr> \<and>
   (\<exists>c'. exportTarget (snd (snd (handleExport browser0 appR))) = Some c' \<and>
      canvasWidth c' = 251 \<and> canvasHeight c' = 251)"
    using C1_region_scaled_and_floored [OF k, of browser0]
    by (simp add: img1_def crop1_def e1)
  from h k a b show ?thesis by simp
qed

text \<open>
  The dimensions are floored, not rounded: a crop of 101 by 103 on an image of 1500 by
  1500 pixels shown at 1000 by 1000 has a region of 151.5 by 154.5 pixels, and the
  canvas gets 151 by 154.
\<close>

lemma floor_not_round_example:
  "exportTarget (snd (snd (handleExport browser0
      (app0\<lparr>imgRef := Some \<lparr>naturalWidth = 1500, naturalHeight = 1500,
                             width = 1000, height = 1000\<rparr>,
            completedCrop := Some (crop0\<lparr>cropWidth := 101, cropHeight := 103\<rparr>)\<rparr>)))) =
   Some \<lparr>canvasWidth = 151, canvasHeight = 154, ctxFilter = exportFilter DEFAULT_ADJ,
         ctxFillStyle = Solid ''#000000'',
         pixels = [DrawImage \<lparr>naturalWidth = 1500, naturalHeight = 1500,
                               width = 1000, height = 1000\<rparr>
                     \<lparr>sourceX = 150, sourceY = 150, sourceWidth = 303 / 2,
                      sourceHeight = 309 / 2\<rparr> 151 154 (exportFilter DEFAULT_ADJ)]\<rparr>"
  by (simp add: handleExport_def exportTarget_def app0_def crop0_def browser0_def
      resolveRegion_def setWidth_def setHeight_def tryBody_def drawImage_def
      DEFAULT_ADJ_def double_eval)

text \<open>
  C2. When no crop is committed, or the committed crop has width or height at most zero,
  the source region is the whole natural image. The export then takes its normal course:
  it completes normally, draws that region into a canvas of the natural size, and, unless
  the drawing itself throws, hands the canvas to the encoder without logging an error.
\<close>

theorem C2_invalid_crop_exports_full_image:
  assumes "imgRef s = Some img" and "downloadCanvasRef s = Some r"
    and "elements s r = Some c"
    and "completedCrop s = None \<or>
         (\<exists>cr. completedCrop s = Some cr \<and> (cropWidth cr \<le> 0 \<or> cropHeight cr \<le> 0))"
  shows "resolveRegion img (completedCrop s) =
           \<lparr>sourceX = 0, sourceY = 0, sourceWidth = real (naturalWidth img),
            sourceHeight = real (naturalHeight img)\<rparr> \<and>
         fst (handleExport b s) = Normal \<and>
         (\<exists>c'. exportTarget (snd (snd (handleExport b s))) = Some c' \<and>
            canvasWidth c' = int (naturalWidth img) \<and>
            canvasHeight c' = int (naturalHeight img)) \<and>
         (drawImageFault b = None \<longrightarrow>
            fst (snd (handleExport b s)) =
              ToBlob ''image/png'' 1 # toBlobCallback (now b) (encoded b))"
proof -
  have reg: "resolveRegion img (completedCrop s) =
           \<lparr>sourceX = 0, sourceY = 0, sourceWidth = real (naturalWidth img),
            sourceHeight = real (naturalHeight img)\<rparr>"
    using assms(4) by (auto simp add: resolveRegion_def Let_def)
  from handleExport_target_size [OF assms(1-3), of b] reg
  have "\<exists>c'. exportTarget (snd (snd (handleExport b s))) = Some c' \<and>
            canvasWidth c' = int (naturalWidth img) \<and>
            canvasHeight c' = int (naturalHeight img)"
    by simp
  with reg show ?thesis
    by (simp add: handleExport_completes handleExport_effects [OF assms(1-3)])
qed

theorem C2_witness:
  "(completedCrop (app0\<lparr>completedCrop := Some (crop0\<lparr>cropWidth := 0\<rparr>)\<rparr>) = None \<or>
    (\<exists>cr. completedCrop (app0\<lparr>completedCrop := Some (crop0\<lparr>cropWidth := 0\<rparr>)\<rparr>) = Some cr \<and>
          (cropWidth cr \<le> 0 \<or> cropHeight cr \<le> 0))) \<and>
   drawImageFault browser0 = None \<and>
   resolveRegion img0 (Some (crop0\<lparr>cropWidth := 0\<rparr>)) =
     \<lparr>sourceX = 0, sourceY = 0, sourceWidth = 4000, sourceHeight = 3000\<rparr> \<and>
   fst (handleExport browser0 (app0\<lparr>completedCrop := Some (crop0\<lparr>cropWidth := 0\<rparr>)\<rparr>)) = Normal \<and>
   (\<exists>c'. exportTarget (snd (snd (handleExport browser0
              (app0\<lparr>completedCrop := Some (crop0\<lparr>cropWidth := 0\<rparr>)\<rparr>)))) = Some c' \<and>
      canvasWidth c' = 4000 \<and> canvasHeight c' = 3000) \<and>
   fst (snd (handleExport browser0 (app0\<lparr>completedCrop := Some (crop0\<lparr>cropWidth := 0\<rparr>)\<rparr>))) =
     [ToBlob ''image/png'' 1, CreateObjectURL 7, CreateLink, SetDownload 1700000000000,
      SetHref, LinkClick, RevokeObjectURL]"
proof -
  let ?s = "app0\<lparr>completedCrop := Some (crop0\<lparr>cropWidth := 0\<rparr>)\<rparr>"
  have h: "imgRef ?s = Some img0" "downloadCanvasRef ?s = Some 0"
    "elements ?s 0 = Some canvas0"
    "completedCrop ?s = None \<or>
      (\<exists>cr. completedCrop ?s = Some cr \<and> (cropWidth cr \<le> 0 \<or> cropHeight cr \<le> 0))"
    by (simp_all add: app0_def crop0_def)
  have f: "drawImageFault browser0 = None" by (simp add: browser0_def)
  from C2_invalid_crop_exports_full_image [OF h, of browser0] h(4) f
  show ?thesis by (simp add: img0_def browser0_def toBlobCallback_def)
qed

subsection \<open>Failure of the draw step, and an encoder without result\<close>

text \<open>
  C3. When \<open>drawImage\<close> throws during an export, the handler catches the exception: the
  call completes normally, its only effect is the console message \<open>Export failed:\<close> with
  the exception, the encoder is not called, no object URL or link is made and nothing is
  downloaded; the canvas holds no pixels.
\<close>

theorem C3_draw_failure_is_caught:
  assumes "imgRef s = Some img" and "downloadCanvasRef s = Some r"
    and "elements s r = Some c" and "drawImageFault b = Some e"
  shows "fst (handleExport b s) = Normal \<and>
         fst (snd (handleExport b s)) = [ConsoleError ''Export failed:'' e] \<and>
         map_option pixels (exportTarget (snd (snd (handleExport b s)))) = Some []"
  using assms(1,2,4)
  by (simp add: handleExport_unfold [OF assms(1-3)] tryBody_fault exportTarget_def Let_def)

theorem C3_witness:
  "imgRef app0 = Some img0 \<and> downloadCanvasRef app0 = Some 0 \<and>
   elements app0 0 = Some canvas0 \<and>
   drawImageFault browserFault = Some (Exn ''InvalidStateError'') \<and>
   fst (handleExport browserFault app0) = Normal \<and>
   fst (snd (handleExport browserFault app0)) =
     [ConsoleError ''Export failed:'' (Exn ''InvalidStateError'')] \<and>
   map_option pixels (exportTarget (snd (snd (handleExport browserFault app0)))) = Some []"
proof -
  have h: "imgRef app0 = Some img0" "downloadCanvasRef app0 = Some 0"
    "elements app0 0 = Some canvas0"
    "drawImageFault browserFault = Some (Exn ''InvalidStateError'')"
    by (simp_all add: app0_def browserFault_def browser0_def)
  from C3_draw_failure_is_caught [OF h] h show ?thesis by simp
qed

text \<open>
  C10. When the drawing succeeds and \<open>toBlob\<close> hands \<open>null\<close> to its callback, the
  callback has no effect: the export completes normally, and apart from the call of the
  encoder nothing happens; no object URL, no link, no click, no console message.
\<close>

theorem C10_null_blob_is_silent:
  assumes "imgRef s = Some img" and "downloadCanvasRef s = Some r"
    and "elements s r = Some c" and "drawImageFault b = None" and "encoded b = None"
  shows "toBlobCallback (now b) (encoded b) = [] \<and>
         fst (handleExport b s) = Normal \<and>
         fst (snd (handleExport b s)) = [ToBlob ''image/png'' 1]"
  using assms(4,5)
  by (simp add: handleExport_completes handleExport_effects [OF assms(1-3)]
      toBlobCallback_def)

theorem C10_witness:
  "imgRef app0 = Some img0 \<and> downloadCanvasRef app0 = Some 0 \<and>
   elements app0 0 = Some canvas0 \<and> drawImageFault browserNull = None \<and>
   encoded browserNull = None \<and>
   toBlobCallback (now browserNull) (encoded browserNull) = [] \<and>
   fst (handleExport browserNull app0) = Normal \<and>
   fst (snd (handleExport browserNull app0)) = [ToBlob ''image/png'' 1]"
proof -
  have h: "imgRef app0 = Some img0" "downloadCanvasRef app0 = Some 0"
    "elements app0 0 = Some canvas0" "drawImageFault browserNull = None"
    "encoded browserNull = None"
    by (simp_all add: app0_def browserNull_def browser0_def)
  from C10_null_blob_is_silent [OF h] h show ?thesis by simp
qed

subsection \<open>Filter expressions\<close>

text \<open>
  C4. The filter that the export compiles ends with \<open>sepia\<close> and \<open>hue-rotate\<close>. For a
  temperature \<open>t > 0\<close> the sepia argument is \<open>t\<close> and the hue rotation is 0; for \<open>t < 0\<close>
  the hue rotation is \<open>t * 1.5\<close> and the sepia argument is 0; for \<open>t = 0\<close> both are 0.
\<close>

theorem C4_temperature_decomposition:
  "exportFilter a =
     [Brightness (brightness a), Contrast (contrast a), Saturate (saturation a),
      Sepia (sepia a), HueRotate (hue a)] \<and>
   (temperature a > 0 \<longrightarrow> sepia a = temperature a \<and> hue a = 0) \<and>
   (temperature a < 0 \<longrightarrow> hue a = temperature a * 1.5 \<and> sepia a = 0) \<and>
   (temperature a = 0 \<longrightarrow> sepia a = 0 \<and> hue a = 0)"
  by (simp add: exportFilter_def sepia_def hue_def)

theorem C4_witness:
  "exportFilter (DEFAULT_ADJ\<lparr>temperature := 40\<rparr>) =
     [Brightness 100, Contrast 100, Saturate 100, Sepia 40, HueRotate 0] \<and>
   exportFilter (DEFAULT_ADJ\<lparr>temperature := - 40\<rparr>) =
     [Brightness 100, Contrast 100, Saturate 100, Sepia 0, HueRotate (- 60)] \<and>
   exportFilter DEFAULT_ADJ =
     [Brightness 100, Contrast 100, Saturate 100, Sepia 0, HueRotate 0]"
  using C4_temperature_decomposition [of "DEFAULT_ADJ\<lparr>temperature := 40\<rparr>"]
    C4_temperature_decomposition [of "DEFAULT_ADJ\<lparr>temperature := - 40\<rparr>"]
    C4_temperature_decomposition [of DEFAULT_ADJ]
  by (simp add: DEFAULT_ADJ_def)

text \<open>
  C5. The filter of the preview image and the filter of the export are the same
  expression of the same adjustments, and the export draws the image under it.
\<close>

theorem C5_preview_and_export_filter_agree:
  assumes "imgRef s = Some img" and "downloadCanvasRef s = Some r"
    and "elements s r = Some c" and "drawImageFault b = None"
  shows "previewFilter a = exportFilter a \<and>
         (\<exists>c'. exportTarget (snd (snd (handleExport b s))) = Some c' \<and>
            hd (pixels c') =
              DrawImage img (resolveRegion img (completedCrop s))
                (canvasWidth c') (canvasHeight c') (previewFilter (adj s)))"
proof -
  have eq: "previewFilter x = exportFilter x" for x
    by (simp add: previewFilter_def exportFilter_def sepia_def hue_def)
  from handleExport_pixels [OF assms] eq show ?thesis by auto
qed

theorem C5_witness:
  "imgRef app0 = Some img0 \<and> downloadCanvasRef app0 = Some 0 \<and>
   elements app0 0 = Some canvas0 \<and> drawImageFault browser0 = None \<and>
   previewFilter (DEFAULT_ADJ\<lparr>temperature := - 40\<rparr>) =
     exportFilter (DEFAULT_ADJ\<lparr>temperature := - 40\<rparr>) \<and>
   (\<exists>c'. exportTarget (snd (snd (handleExport browser0 app0))) = Some c' \<and>
      hd (pixels c') =
        DrawImage img0 (resolveRegion img0 (completedCrop app0))
          (canvasWidth c') (canvasHeight c') (previewFilter (adj app0)))"
proof -
  have h: "imgRef app0 = Some img0" "downloadCanvasRef app0 = Some 0"
    "elements app0 0 = Some canvas0" "drawImageFault browser0 = None"
    by (simp_all add: app0_def browser0_def)
  from C5_preview_and_export_filter_agree [OF h, of "DEFAULT_ADJ\<lparr>temperature := - 40\<rparr>"] h
  show ?thesis by simp
qed

subsection \<open>Vignette\<close>

text \<open>
  C6. For every vignette value \<open>v\<close>, the gradient of the preview overlay is transparent
  at its inner stop and black with alpha \<open>min (v / 100) 0.85\<close> at its outer stop, and so
  is the gradient that the export bakes, with the filter cleared, when \<open>v > 0\<close>: a
  transparent stop at 0 and a black stop of that alpha at 1. For \<open>v = 0\<close> the export
  paints nothing over the image and every stop of the preview overlay has alpha 0: on
  both paths the vignette is a visual no-op.
\<close>

theorem C6_vignette_stops:
  assumes "imgRef s = Some img" and "downloadCanvasRef s = Some r"
    and "elements s r = Some c" and "drawImageFault b = None"
  shows "snd (hd (previewVignette (adj s))) = Transparent \<and>
         snd (last (previewVignette (adj s))) =
           Rgba 0 0 0 (min (vignette (adj s) / 100) 0.85) \<and>
         (\<exists>c'. exportTarget (snd (snd (handleExport b s))) = Some c' \<and>
            (if 0 < vignette (adj s)
             then \<exists>g. pixels c' =
                        [DrawImage img (resolveRegion img (completedCrop s))
                           (canvasWidth c') (canvasHeight c') (exportFilter (adj s)),
                         FillRect (canvasWidth c') (canvasHeight c') (Gradient g) []] \<and>
                      colorStops g =
                        [(0, Transparent),
                         (1, Rgba 0 0 0 (min (vignette (adj s) / 100) 0.85))]
             else pixels c' =
                    [DrawImage img (resolveRegion img (completedCrop s))
                       (canvasWidth c') (canvasHeight c') (exportFilter (adj s))])) \<and>
         (vignette (adj s) = 0 \<longrightarrow>
            previewVignette (adj s) = [(60, Transparent), (100, Rgba 0 0 0 0)] \<and>
            (\<forall>st \<in> set (previewVignette (adj s)). alpha (snd st) = 0))"
proof -
  have pre: "snd (hd (previewVignette (adj s))) = Transparent \<and>
         snd (last (previewVignette (adj s))) =
           Rgba 0 0 0 (min (vignette (adj s) / 100) 0.85)"
    by (simp add: previewVignette_def)
  have zero: "vignette (adj s) = 0 \<longrightarrow>
            previewVignette (adj s) = [(60, Transparent), (100, Rgba 0 0 0 0)] \<and>
            (\<forall>st \<in> set (previewVignette (adj s)). alpha (snd st) = 0)"
    by (simp add: previewVignette_def)
  from handleExport_pixels [OF assms]
  obtain c' where c': "exportTarget (snd (snd (handleExport b s))) = Some c'"
    and px: "pixels c' =
       DrawImage img (resolveRegion img (completedCrop s)) (canvasWidth c') (canvasHeight c')
         (exportFilter (adj s)) #
       (if vignette (adj s) > 0
        then [FillRect (canvasWidth c') (canvasHeight c')
                (Gradient (projr (vignetteGradient (adj s) (canvasWidth c') (canvasHeight c'))))
                []]
        else [])"
    by blast
  have "if 0 < vignette (adj s)
        then \<exists>g. pixels c' =
                   [DrawImage img (resolveRegion img (completedCrop s))
                      (canvasWidth c') (canvasHeight c') (exportFilter (adj s)),
                    FillRect (canvasWidth c') (canvasHeight c') (Gradient g) []] \<and>
                 colorStops g =
                   [(0, Transparent), (1, Rgba 0 0 0 (min (vignette (adj s) / 100) 0.85))]
        else pixels c' =
               [DrawImage img (resolveRegion img (completedCrop s))
                  (canvasWidth c') (canvasHeight c') (exportFilter (adj s))]"
    using px by (simp add: vignetteGradient_Inr)
  with c' pre zero show ?thesis by blast
qed

theorem C6_witness:
  "imgRef app150 = Some img0 \<and> downloadCanvasRef app150 = Some 0 \<and>
   elements app150 0 = Some canvas0 \<and> drawImageFault browser0 = None \<and>
   0 < vignette (adj app150) \<and> vignette (adj app0) = 0 \<and>
   previewVignette (adj app150) = [(0, Transparent), (100, Rgba 0 0 0 0.85)] \<and>
   (\<exists>c' g. exportTarget (snd (snd (handleExport browser0 app150))) = Some c' \<and>
      pixels c' =
        [DrawImage img0 (resolveRegion img0 (completedCrop app150))
           (canvasWidth c') (canvasHeight c') (exportFilter (adj app150)),
         FillRect (canvasWidth c') (canvasHeight c') (Gradient g) []] \<and>
      colorStops g = [(0, Transparent), (1, Rgba 0 0 0 0.85)]) \<and>
   previewVignette (adj app0) = [(60, Transparent), (100, Rgba 0 0 0 0)] \<and>
   map (\<lambda>st. alpha (snd st)) (previewVignette (adj app0)) = [0, 0] \<and>
   (\<exists>c'. exportTarget (snd (snd (handleExport browser0 app0))) = Some c' \<and>
      pixels c' =
        [DrawImage img0 (resolveRegion img0 (completedCrop app0))
           (canvasWidth c') (canvasHeight c') (exportFilter (adj app0))])"
proof -
  have h: "imgRef app150 = Some img0" "downloadCanvasRef app150 = Some 0"
    "elements app150 0 = Some canvas0" "drawImageFault browser0 = None"
    by (simp_all add: app150_def app0_def browser0_def)
  have h0: "imgRef app0 = Some img0" "downloadCanvasRef app0 = Some 0"
    "elements app0 0 = Some canvas0"
    by (simp_all add: app0_def)
  have v: "vignette (adj app150) = 150" "vignette (adj app0) = 0"
    by (simp_all add: app150_def app0_def DEFAULT_ADJ_def)
  have p: "previewVignette (adj app150) = [(0, Transparent), (100, Rgba 0 0 0 0.85)]"
    by (simp add: previewVignette_def v)
  from C6_vignette_stops [OF h] C6_vignette_stops [OF h0 h(4)] h v p
  show ?thesis by simp
qed

text \<open>
  C7. The gradient of the baked vignette, for a canvas of width \<open>W\<close> and height \<open>H\<close> and
  a vignette value \<open>v\<close>, starts with radius 0 at the centre and ends with the radius
  \<open>max 1 (sqrt ((W/2)^2 + (H/2)^2) * (1.2 - v/100))\<close>, which is at least 1, so that
  creating the gradient never fails; and whenever the export bakes a vignette (\<open>v > 0\<close>),
  it fills the canvas with this gradient for the canvas's own dimensions.
\<close>

theorem C7_vignette_radius:
  assumes "imgRef s = Some img" and "downloadCanvasRef s = Some r"
    and "elements s r = Some c" and "drawImageFault b = None"
    and "0 < vignette (adj s)"
  shows "(\<exists>g. vignetteGradient a w h = Inr g \<and> startR g = 0 \<and>
            endR g = max 1 (sqrt ((real_of_int w / 2) ^ 2 + (real_of_int h / 2) ^ 2)
                             * (1.2 - vignette a / 100)) \<and>
            1 \<le> endR g) \<and>
         (\<exists>c' g. exportTarget (snd (snd (handleExport b s))) = Some c' \<and>
            last (pixels c') = FillRect (canvasWidth c') (canvasHeight c') (Gradient g) [] \<and>
            endR g = max 1 (sqrt ((real_of_int (canvasWidth c') / 2) ^ 2
                                  + (real_of_int (canvasHeight c') / 2) ^ 2)
                             * (1.2 - vignette (adj s) / 100)) \<and>
            1 \<le> endR g)"
proof -
  have g: "\<exists>g. vignetteGradient x w' h' = Inr g \<and> startR g = 0 \<and>
            endR g = max 1 (sqrt ((real_of_int w' / 2) ^ 2 + (real_of_int h' / 2) ^ 2)
                             * (1.2 - vignette x / 100)) \<and>
            1 \<le> endR g" for x w' h'
    by (simp add: vignetteGradient_Inr)
  from handleExport_pixels [OF assms(1-4)] assms(5)
  obtain c' where c': "exportTarget (snd (snd (handleExport b s))) = Some c'"
    and px: "last (pixels c') =
       FillRect (canvasWidth c') (canvasHeight c')
         (Gradient (projr (vignetteGradient (adj s) (canvasWidth c') (canvasHeight c')))) []"
    by auto
  from g [of "adj s" "canvasWidth c'" "canvasHeight c'"]
  obtain g' where g': "vignetteGradient (adj s) (canvasWidth c') (canvasHeight c') = Inr g'"
    and r: "endR g' = max 1 (sqrt ((real_of_int (canvasWidth c') / 2) ^ 2
                                  + (real_of_int (canvasHeight c') / 2) ^ 2)
                             * (1.2 - vignette (adj s) / 100))" "1 \<le> endR g'"
    by blast
  from px g' have "last (pixels c') =
      FillRect (canvasWidth c') (canvasHeight c') (Gradient g') []"
    by simp
  with c' r g [of a w h] show ?thesis by blast
qed

theorem C7_witness:
  "imgRef app150 = Some img0 \<and> downloadCanvasRef app150 = Some 0 \<and>
   elements app150 0 = Some canvas0 \<and> drawImageFault browser0 = None \<and>
   0 < vignette (adj app150) \<and>
   (\<exists>g. vignetteGradient (adj app150) 8 6 = Inr g \<and> startR g = 0 \<and> endR g = 1) \<and>
   (\<exists>g. vignetteGradient (DEFAULT_ADJ\<lparr>vignette := 20\<rparr>) 8 6 = Inr g \<and> startR g = 0 \<and>
      endR g = 5) \<and>
   (\<exists>c' g. exportTarget (snd (snd (handleExport browser0 app150))) = Some c' \<and>
      last (pixels c') = FillRect 1000 750 (Gradient g) [] \<and> endR g = 1)"
proof -
  have h: "imgRef app150 = Some img0" "downloadCanvasRef app150 = Some 0"
    "elements app150 0 = Some canvas0" "drawImageFault browser0 = None"
    "0 < vignette (adj app150)"
    by (simp_all add: app150_def app0_def browser0_def DEFAULT_ADJ_def)
  have v: "vignette (adj app150) = 150"
    by (simp add: app150_def DEFAULT_ADJ_def)
  have sq: "sqrt ((real_of_int 8 / 2) ^ 2 + (real_of_int 6 / 2) ^ 2) = 5"
    by (simp add: real_sqrt_unique)
  have r1: "max 1 (sqrt ((real_of_int 8 / 2) ^ 2 + (real_of_int 6 / 2) ^ 2)
                    * (1.2 - 150 / 100)) = 1"
    by (simp add: max_def)
  have r2: "max 1 (sqrt ((real_of_int 1000 / 2) ^ 2 + (real_of_int 750 / 2) ^ 2)
                    * (1.2 - 150 / 100)) = 1"
    by (simp add: max_def)
  have a: "\<exists>g. vignetteGradient (adj app150) 8 6 = Inr g \<and> startR g = 0 \<and> endR g = 1"
    using C7_vignette_radius [OF h, of "adj app150" 8 6] r1 by (auto simp add: v)
  have b: "\<exists>g. vignetteGradient (DEFAULT_ADJ\<lparr>vignette := 20\<rparr>) 8 6 = Inr g \<and> startR g = 0 \<and>
      endR g = 5"
    using C7_vignette_radius [OF h, of "DEFAULT_ADJ\<lparr>vignette := 20\<rparr>" 8 6] sq
    by (auto simp add: DEFAULT_ADJ_def)
  from handleExport_target_size [OF h(1-3), of browser0]
  have sz: "\<exists>c'. exportTarget (snd (snd (handleExport browser0 app150))) = Some c' \<and>
      canvasWidth c' = 1000 \<and> canvasHeight c' = 750"
    by (simp add: region0 app150_def app0_def)
  have c: "\<exists>c' g. exportTarget (snd (snd (handleExport browser0 app150))) = Some c' \<and>
      last (pixels c') = FillRect 1000 750 (Gradient g) [] \<and> endR g = 1"
    using C7_vignette_radius [OF h, of "adj app150" 8 6] sz r2 by (auto simp add: v)
  from h a b c show ?thesis by simp
qed

subsection \<open>The export target\<close>

lemma app1_eq:
  "app1 = app0\<lparr>elements :=
     [0 \<mapsto> \<lparr>canvasWidth = 1000, canvasHeight = 750, ctxFilter = exportFilter DEFAULT_ADJ,
            ctxFillStyle = Solid ''#000000'',
            pixels = [DrawImage img0
                        \<lparr>sourceX = 500, sourceY = 500, sourceWidth = 1000,
                         sourceHeight = 750\<rparr>
                        1000 750 (exportFilter DEFAULT_ADJ)]\<rparr>]\<rparr>"
  by (simp add: app1_def handleExport_def app0_def region0 browser0_def
      setWidth_def setHeight_def tryBody_def drawImage_def DEFAULT_ADJ_def Let_def)

lemma app2_eq:
  "app2 = app0\<lparr>completedCrop := None, elements :=
     [0 \<mapsto> \<lparr>canvasWidth = 4000, canvasHeight = 3000, ctxFilter = exportFilter DEFAULT_ADJ,
            ctxFillStyle = Solid ''#000000'',
            pixels = [DrawImage img0
                        \<lparr>sourceX = 0, sourceY = 0, sourceWidth = 4000,
                         sourceHeight = 3000\<rparr>
                        4000 3000 (exportFilter DEFAULT_ADJ)]\<rparr>]\<rparr>"
  by (simp add: app2_def app1_eq handleExport_def app0_def img0_def browser0_def
      resolveRegion_def setWidth_def setHeight_def tryBody_def drawImage_def
      DEFAULT_ADJ_def Let_def)

text \<open>
  C8, as the code has it. The export draws into the one canvas element that
  \<open>downloadCanvasRef\<close> denotes: the call creates no element and leaves the ref as it
  is. It sets the width and height of that canvas to the floor of the width and height of
  the resolved source region, which clears it, so that the outcome of the call does not
  depend on what the canvas held or how large it was before.
\<close>

theorem C8_target_is_resized:
  assumes "imgRef s = Some img" and "downloadCanvasRef s = Some r"
    and "elements s r = Some c"
  shows "downloadCanvasRef (snd (snd (handleExport b s))) = downloadCanvasRef s \<and>
         dom (elements (snd (snd (handleExport b s)))) = dom (elements s) \<and>
         (\<exists>c'. exportTarget (snd (snd (handleExport b s))) = Some c' \<and>
            canvasWidth c' = \<lfloor>sourceWidth (resolveRegion img (completedCrop s))\<rfloor> \<and>
            canvasHeight c' = \<lfloor>sourceHeight (resolveRegion img (completedCrop s))\<rfloor>) \<and>
         handleExport b (s\<lparr>elements := (elements s)(r \<mapsto> c0)\<rparr>) = handleExport b s"
proof -
  let ?s0 = "s\<lparr>elements := (elements s)(r \<mapsto> c0)\<rparr>"
  have h0: "imgRef ?s0 = Some img" "downloadCanvasRef ?s0 = Some r"
    "elements ?s0 r = Some c0"
    using assms by simp_all
  have same: "handleExport b ?s0 = handleExport b s"
    by (simp add: handleExport_unfold [OF h0] handleExport_unfold [OF assms] Let_def)
  have keep: "downloadCanvasRef (snd (snd (handleExport b s))) = downloadCanvasRef s"
    by (simp add: handleExport_unfold [OF assms] Let_def)
  have "dom (elements (snd (snd (handleExport b s)))) = insert r (dom (elements s))"
    by (simp add: handleExport_unfold [OF assms] Let_def)
  moreover have "r \<in> dom (elements s)"
    using assms(3) by blast
  ultimately have d: "dom (elements (snd (snd (handleExport b s)))) = dom (elements s)"
    by (simp add: insert_absorb)
  from handleExport_target_size [OF assms, of b] same keep d show ?thesis by blast
qed

theorem C8_witness:
  "imgRef app1 = Some img0 \<and> downloadCanvasRef app1 = Some 0 \<and>
   map_option canvasWidth (elements app1 0) = Some 1000 \<and>
   downloadCanvasRef (snd (snd (handleExport browser0 app1))) = Some 0 \<and>
   dom (elements (snd (snd (handleExport browser0 app1)))) = {0} \<and>
   (\<exists>c'. exportTarget (snd (snd (handleExport browser0 app1))) = Some c' \<and>
      canvasWidth c' = 1000 \<and> canvasHeight c' = 750) \<and>
   handleExport browser0 (app1\<lparr>elements := (elements app1)(0 \<mapsto> canvas0)\<rparr>) =
     handleExport browser0 app1"
proof -
  have h: "imgRef app1 = Some img0" "downloadCanvasRef app1 = Some 0"
    "elements app1 0 =
       Some \<lparr>canvasWidth = 1000, canvasHeight = 750, ctxFilter = exportFilter DEFAULT_ADJ,
             ctxFillStyle = Solid ''#000000'',
             pixels = [DrawImage img0
                         \<lparr>sourceX = 500, sourceY = 500, sourceWidth = 1000,
                          sourceHeight = 750\<rparr>
                         1000 750 (exportFilter DEFAULT_ADJ)]\<rparr>"
    by (simp_all add: app1_eq app0_def)
  have reg: "resolveRegion img0 (completedCrop app1) =
      \<lparr>sourceX = 500, sourceY = 500, sourceWidth = 1000, sourceHeight = 750\<rparr>"
    by (simp add: app1_eq app0_def region0)
  have d: "dom (elements app1) = {0}"
    by (simp add: app1_eq app0_def)
  from C8_target_is_resized [OF h, of browser0 canvas0] h reg d
  show ?thesis by simp
qed

text \<open>
  Two exports in a row use the same element: the canvas at address 0 is the target of
  the first export, which leaves it at 1000 by 750, and of the second, which leaves it
  at 4000 by 3000; the store holds this one canvas before, between and after.
\<close>

theorem C8_counterexample:
  "downloadCanvasRef app0 = Some 0 \<and> dom (elements app0) = {0} \<and>
   downloadCanvasRef app1 = Some 0 \<and> dom (elements app1) = {0} \<and>
   map_option pixels (exportTarget app1) =
     Some [DrawImage img0
             \<lparr>sourceX = 500, sourceY = 500, sourceWidth = 1000, sourceHeight = 750\<rparr>
             1000 750 (exportFilter DEFAULT_ADJ)] \<and>
   downloadCanvasRef app2 = Some 0 \<and> dom (elements app2) = {0} \<and>
   map_option pixels (exportTarget app2) =
     Some [DrawImage img0
             \<lparr>sourceX = 0, sourceY = 0, sourceWidth = 4000, sourceHeight = 3000\<rparr>
             4000 3000 (exportFilter DEFAULT_ADJ)]"
  by (simp add: app1_eq app2_eq exportTarget_def app0_def)

subsection \<open>The unit of the crop\<close>

lemma reactImageCrop_keepsUnit: "keepsUnit reactImageCrop"
  by (simp add: keepsUnit_def reactImageCrop_def ricMakeAspectCrop_def ricCenterCrop_def
      Let_def)

lemma onImageLoad_example:
  "completedCrop (onImageLoad reactImageCrop img0 app0) = Some cropPct"
  by (simp add: onImageLoad_def reactImageCrop_def ricMakeAspectCrop_def ricCenterCrop_def
      toPixels_def fromPixels_def img0_def app0_def cropPct_def Let_def)

text \<open>
  C9. The source region does not depend on the unit of the committed crop, and neither
  does the export: with a crop in percent, the percent values are multiplied by the scale
  factors of the pixels. That is the crop which \<open>onImageLoad\<close> and, when an image is
  there, \<open>handleAspectChange\<close> commit, provided the library returns a crop in the unit of
  the crop it is given.
\<close>

theorem C9_unit_is_ignored:
  assumes "keepsUnit lib"
    and "0 < width img" and "0 < height img"
    and "0 < cropWidth cr" and "0 < cropHeight cr"
  shows "resolveRegion img (Some (cr\<lparr>cropUnit := u\<rparr>)) = resolveRegion img (Some cr) \<and>
         handleExport b (s\<lparr>completedCrop := Some (cr\<lparr>cropUnit := u\<rparr>)\<rparr>) =
           (case handleExport b (s\<lparr>completedCrop := Some cr\<rparr>) of
              (k, effs, s') \<Rightarrow> (k, effs, s'\<lparr>completedCrop := Some (cr\<lparr>cropUnit := u\<rparr>)\<rparr>)) \<and>
         (cropUnit cr = Percent \<longrightarrow>
            resolveRegion img (Some cr) =
              \<lparr>sourceX =
                 jsMul (cropX cr) (jsDiv (real (naturalWidth img)) (real (width img))),
               sourceY =
                 jsMul (cropY cr) (jsDiv (real (naturalHeight img)) (real (height img))),
               sourceWidth =
                 jsMul (cropWidth cr) (jsDiv (real (naturalWidth img)) (real (width img))),
               sourceHeight =
                 jsMul (cropHeight cr)
                   (jsDiv (real (naturalHeight img)) (real (height img)))\<rparr>) \<and>
         (\<exists>ic. crop (onImageLoad lib e s) = Some ic \<and>
            completedCrop (onImageLoad lib e s) = Some ic \<and> cropUnit ic = Percent) \<and>
         (imgRef s = Some img \<longrightarrow>
            (\<exists>nc. crop (handleAspectChange lib asp s) = Some nc \<and>
               completedCrop (handleAspectChange lib asp s) = Some nc \<and>
               cropUnit nc = Percent))"
proof -
  have a: "resolveRegion img (Some (cr\<lparr>cropUnit := u\<rparr>)) = resolveRegion img (Some cr)"
    by (simp add: resolveRegion_def Let_def)
  have b: "handleExport b (s\<lparr>completedCrop := Some (cr\<lparr>cropUnit := u\<rparr>)\<rparr>) =
           (case handleExport b (s\<lparr>completedCrop := Some cr\<rparr>) of
              (k, effs, s') \<Rightarrow> (k, effs, s'\<lparr>completedCrop := Some (cr\<lparr>cropUnit := u\<rparr>)\<rparr>))"
    by (simp add: handleExport_def resolveRegion_def Let_def
        split: option.splits prod.splits sum.splits)
  have c: "resolveRegion img (Some cr) =
              \<lparr>sourceX =
                 jsMul (cropX cr) (jsDiv (real (naturalWidth img)) (real (width img))),
               sourceY =
                 jsMul (cropY cr) (jsDiv (real (naturalHeight img)) (real (height img))),
               sourceWidth =
                 jsMul (cropWidth cr) (jsDiv (real (naturalWidth img)) (real (width img))),
               sourceHeight =
                 jsMul (cropHeight cr)
                   (jsDiv (real (naturalHeight img)) (real (height img)))\<rparr>"
    using assms(4,5) by (simp add: resolveRegion_def Let_def)
  have d: "\<exists>ic. crop (onImageLoad lib e s) = Some ic \<and>
            completedCrop (onImageLoad lib e s) = Some ic \<and> cropUnit ic = Percent"
    using assms(1) by (simp add: onImageLoad_def keepsUnit_def Let_def)
  have e: "imgRef s = Some img \<longrightarrow>
            (\<exists>nc. crop (handleAspectChange lib asp s) = Some nc \<and>
               completedCrop (handleAspectChange lib asp s) = Some nc \<and>
               cropUnit nc = Percent)"
    using assms(1) by (simp add: handleAspectChange_def keepsUnit_def Let_def)
  from a b c d e show ?thesis by blast
qed

theorem C9_witness:
  "keepsUnit reactImageCrop \<and> 0 < width img0 \<and> 0 < height img0 \<and>
   0 < cropWidth cropPct \<and> 0 < cropHeight cropPct \<and> cropUnit cropPct = Percent \<and>
   imgRef app0 = Some img0 \<and>
   completedCrop (onImageLoad reactImageCrop img0 app0) = Some cropPct \<and>
   resolveRegion img0 (Some (cropPct\<lparr>cropUnit := Px\<rparr>)) = resolveRegion img0 (Some cropPct) \<and>
   resolveRegion img0 (Some cropPct) =
     \<lparr>sourceX = 0, sourceY = 125 / 2, sourceWidth = 500, sourceHeight = 375\<rparr> \<and>
   (\<exists>ic. crop (onImageLoad reactImageCrop img0 app0) = Some ic \<and>
      completedCrop (onImageLoad reactImageCrop img0 app0) = Some ic \<and>
      cropUnit ic = Percent) \<and>
   (\<exists>nc. crop (handleAspectChange reactImageCrop 1 app0) = Some nc \<and>
      completedCrop (handleAspectChange reactImageCrop 1 app0) = Some nc \<and>
      cropUnit nc = Percent)"
proof -
  have h: "keepsUnit reactImageCrop" "0 < width img0" "0 < height img0"
    "0 < cropWidth cropPct" "0 < cropHeight cropPct"
    by (simp_all add: reactImageCrop_keepsUnit img0_def cropPct_def)
  have u: "cropUnit cropPct = Percent" "imgRef app0 = Some img0"
    by (simp_all add: cropPct_def app0_def)
  have e: "jsDiv 4000 800 = 5" "jsDiv 3000 600 = 5" "jsMul 0 5 = 0"
    "jsMul (25 / 2) 5 = 125 / 2" "jsMul 100 5 = 500" "jsMul 75 5 = 375"
    by (simp_all add: double_eval)
  from C9_unit_is_ignored [OF h, of Px browser0 app0 img0 1] h u onImageLoad_example
  show ?thesis by (simp add: img0_def cropPct_def e)
qed

end
